theory Spec2Isabelle
  imports Main "HOL-Library.Multiset"
begin

section \<open>dfhist: a file-backed cache for table-valued functions\<close>

text \<open>
  The development embeds \<^verbatim>\<open>dfhist/__init__.py\<close>: the class \<^verbatim>\<open>DFHist\<close>
  (configuration, \<^verbatim>\<open>marshal\<close>, \<^verbatim>\<open>unmarshal\<close>, \<^verbatim>\<open>paths_to_versions\<close>) and the class
  \<^verbatim>\<open>VersionedFunc\<close> (\<^verbatim>\<open>__call__\<close>, \<^verbatim>\<open>retrieve\<close>, \<^verbatim>\<open>force\<close>). Line numbers are
  those of that file. What the program takes from the Python library (\<^verbatim>\<open>str.format\<close>,
  \<^verbatim>\<open>glob\<close>, \<^verbatim>\<open>sorted\<close>, \<^verbatim>\<open>getctime\<close>, \<^verbatim>\<open>datetime\<close>) is modelled as CPython does it on a
  POSIX system.

  Everything the Python does to its environment is explicit: the cache directory, the
  clock, the log of calls to the wrapped function and the number of calls to the
  timestamp formatter are fields of a \<open>world\<close> that every operation takes and returns.
  An exception is a value \<open>Inl e\<close> of the result.
\<close>

subsection \<open>Exceptions\<close>

text \<open>
  \<open>FormatError\<close> stands for whatever \<^verbatim>\<open>str.format\<close> raises (KeyError, IndexError,
  ValueError, AttributeError); \<open>Raised s\<close> is any other exception, of the wrapped
  function or of pandas.
\<close>

datatype error =
    ValueError
  | NotImplementedError
  | IndexError
  | FormatError
  | OSError
  | FileNotFoundError
  | Raised string

subsection \<open>Strings: substring test and \<^verbatim>\<open>str.format\<close>\<close>


text \<open>
  \<^verbatim>\<open>fmt.format(timestamp=ts)\<close>. The text of a replacement field runs from a single
  \<^verbatim>\<open>{\<close> to the next \<^verbatim>\<open>}\<close>; \<^verbatim>\<open>{{\<close> and \<^verbatim>\<open>}}\<close> are the escapes of the two braces.
  The model covers the plain field \<^verbatim>\<open>{timestamp}\<close>. Any other field gives
  \<open>FormatError\<close>: a different name, a number or an empty name raise in Python
  (there is no such argument), as do a lone \<^verbatim>\<open>}\<close> and an unclosed \<^verbatim>\<open>{\<close>; fields
  with a conversion, a format specification, an attribute or an index are outside
  the model. Hence a result \<open>Inr s\<close> of the model is the result of the Python.
\<close>

fun field_end :: "string \<Rightarrow> (string \<times> string) option" where
  "field_end [] = None"
| "field_end (c # cs) =
     (if c = CHR ''}'' then Some ([], cs)
      else (case field_end cs of
              None \<Rightarrow> None
            | Some (fld, rest) \<Rightarrow> Some (c # fld, rest)))"

lemma field_end_length: "field_end cs = Some (fld, rest) \<Longrightarrow> length rest < length cs"
  by (induction cs arbitrary: fld rest) (auto split: if_splits option.splits)

function py_format :: "string \<Rightarrow> string \<Rightarrow> error + string" where
  "py_format [] ts = Inr []"
| "py_format (c # cs) ts =
     (if c = CHR ''{'' then
        (case cs of
           [] \<Rightarrow> Inl FormatError
         | d # ds \<Rightarrow>
             if d = CHR ''{'' then
               (case py_format ds ts of Inl e \<Rightarrow> Inl e | Inr r \<Rightarrow> Inr (CHR ''{'' # r))
             else
               (case field_end cs of
                  None \<Rightarrow> Inl FormatError
                | Some (fld, rest) \<Rightarrow>
                    if fld = ''timestamp'' then
                      (case py_format rest ts of Inl e \<Rightarrow> Inl e | Inr r \<Rightarrow> Inr (ts @ r))
                    else Inl FormatError))
      else if c = CHR ''}'' then
        (case cs of
           [] \<Rightarrow> Inl FormatError
         | d # ds \<Rightarrow>
             if d = CHR ''}'' then
               (case py_format ds ts of Inl e \<Rightarrow> Inl e | Inr r \<Rightarrow> Inr (CHR ''}'' # r))
             else Inl FormatError)
      else
        (case py_format cs ts of Inl e \<Rightarrow> Inl e | Inr r \<Rightarrow> Inr (c # r)))"
  by pat_completeness auto
termination
  by (relation "measure (\<lambda>(fmt, ts). length fmt)")
     (auto dest!: field_end_length simp del: field_end.simps)

declare py_format.simps [simp del]

subsection \<open>File-name patterns: \<^verbatim>\<open>fnmatch\<close> and \<^verbatim>\<open>glob\<close>\<close>

text \<open>
  \<^verbatim>\<open>glob.has_magic\<close>: the pattern contains one of \<^verbatim>\<open>*\<close>, \<^verbatim>\<open>?\<close>, \<^verbatim>\<open>[\<close>.
\<close>

definition has_magic :: "string \<Rightarrow> bool" where
  "has_magic s = list_ex (\<lambda>c. c = CHR ''*'' \<or> c = CHR ''?'' \<or> c = CHR ''['') s"

text \<open>\<^verbatim>\<open>glob._ishidden\<close>: the name starts with a dot.\<close>

definition ishidden :: "string \<Rightarrow> bool" where
  "ishidden s = (case s of [] \<Rightarrow> False | c # _ \<Rightarrow> c = CHR ''.'')"

text \<open>
  A bracket expression, as \<^verbatim>\<open>fnmatch.translate\<close> reads it. \<open>class_split p\<close> takes the
  pattern after an opening \<^verbatim>\<open>[\<close>: an optional \<^verbatim>\<open>!\<close>, then an optional \<^verbatim>\<open>]\<close> taken
  literally, then everything up to the next \<^verbatim>\<open>]\<close>. It returns the text between the
  brackets and the pattern after the closing bracket, or \<open>None\<close> when no bracket
  closes the expression (the \<^verbatim>\<open>[\<close> is then an ordinary character).
\<close>

fun until_bracket :: "string \<Rightarrow> (string \<times> string) option" where
  "until_bracket [] = None"
| "until_bracket (c # cs) =
     (if c = CHR '']'' then Some ([], cs)
      else (case until_bracket cs of
              None \<Rightarrow> None
            | Some (stuff, rest) \<Rightarrow> Some (c # stuff, rest)))"

definition class_split :: "string \<Rightarrow> (string \<times> string) option" where
  "class_split p =
     (let k = (case p of
                 c # d # _ \<Rightarrow>
                   if c = CHR ''!'' then (if d = CHR '']'' then 2 else 1)
                   else if c = CHR '']'' then 1 else 0
               | [c] \<Rightarrow> if c = CHR ''!'' \<or> c = CHR '']'' then 1 else 0
               | [] \<Rightarrow> (0::nat))
      in case until_bracket (drop k p) of
           None \<Rightarrow> None
         | Some (stuff, rest) \<Rightarrow> Some (take k p @ stuff, rest))"

text \<open>
  Membership in the set that the text between the brackets denotes: single
  characters and ranges \<^verbatim>\<open>a-b\<close> by code point, negated by a leading \<^verbatim>\<open>!\<close>. A range
  whose ends are in the wrong order is empty here; CPython's versions differ on
  it (an error in old ones, the range cut out of the text in new ones).
\<close>

fun class_mem :: "string \<Rightarrow> char \<Rightarrow> bool" where
  "class_mem (a # m # b # rest) c =
     (if m = CHR ''-'' then
        ((of_char a :: nat) \<le> of_char c \<and> (of_char c :: nat) \<le> of_char b) \<or> class_mem rest c
      else c = a \<or> class_mem (m # b # rest) c)"
| "class_mem (a # rest) c = (c = a \<or> class_mem rest c)"
| "class_mem [] c = False"

definition class_matches :: "string \<Rightarrow> char \<Rightarrow> bool" where
  "class_matches stuff c =
     (case stuff of
        [] \<Rightarrow> False
      | s # ss \<Rightarrow> if s = CHR ''!'' then \<not> class_mem ss c else class_mem stuff c)"

lemma until_bracket_length:
  "until_bracket cs = Some (stuff, rest) \<Longrightarrow> length rest < length cs"
  by (induction cs arbitrary: stuff rest) (auto split: if_splits option.splits)

lemma class_split_length: "class_split p = Some (stuff, rest) \<Longrightarrow> length rest \<le> length p"
  by (auto simp: class_split_def Let_def split: option.splits dest!: until_bracket_length)

text \<open>
  \<^verbatim>\<open>fnmatch.fnmatchcase(name, pat)\<close>: the whole name matches the pattern, where
  \<^verbatim>\<open>*\<close> is any run of characters, \<^verbatim>\<open>?\<close> any one character, a bracket expression
  one character of its set, and every other character itself.
\<close>

function fnmatchcase :: "string \<Rightarrow> string \<Rightarrow> bool" where
  "fnmatchcase s [] = (s = [])"
| "fnmatchcase s (c # p) =
     (if c = CHR ''*'' then
        list_ex (\<lambda>k. fnmatchcase (drop k s) p) [0..<Suc (length s)]
      else if c = CHR ''?'' then
        (case s of [] \<Rightarrow> False | d # s' \<Rightarrow> fnmatchcase s' p)
      else if c = CHR ''['' then
        (case class_split p of
           None \<Rightarrow> (case s of [] \<Rightarrow> False | d # s' \<Rightarrow> d = CHR ''['' \<and> fnmatchcase s' p)
         | Some (stuff, rest) \<Rightarrow>
             (case s of [] \<Rightarrow> False | d # s' \<Rightarrow> class_matches stuff d \<and> fnmatchcase s' rest))
      else
        (case s of [] \<Rightarrow> False | d # s' \<Rightarrow> d = c \<and> fnmatchcase s' p))"
  by pat_completeness auto
termination
  by (relation "measure (\<lambda>(s, p). length p)") (auto dest!: class_split_length)

declare fnmatchcase.simps [simp del]

text \<open>
  \<^verbatim>\<open>glob(join(directory, pattern))\<close> over the names of the cache directory, in the
  order the directory lists them. A pattern with a wildcard is matched against the
  names, those starting with a dot being skipped unless the pattern starts with
  one (\<^verbatim>\<open>_glob1\<close>); a pattern without wildcard is found when a file of that very
  name exists (\<^verbatim>\<open>_glob0\<close>). A path is written as the file's name: all paths of the
  program are \<^verbatim>\<open>join(directory, name)\<close> for the one configured directory, which is
  taken to be free of wildcard characters. A pattern with a \<^verbatim>\<open>/\<close>, and the patterns
  \<^verbatim>\<open>.\<close> and \<^verbatim>\<open>..\<close>, name something other than a file of that directory and are
  outside the model (\<open>valid_name\<close> below).
\<close>

definition glob1 :: "string list \<Rightarrow> string \<Rightarrow> string list" where
  "glob1 names pattern =
     filter (\<lambda>x. fnmatchcase x pattern)
       (if ishidden pattern then names else filter (\<lambda>x. \<not> ishidden x) names)"

definition glob0 :: "string list \<Rightarrow> string \<Rightarrow> string list" where
  "glob0 names basename = (if basename \<in> set names then [basename] else [])"

definition glob :: "string list \<Rightarrow> string \<Rightarrow> string list" where
  "glob names pattern =
     (if has_magic pattern then glob1 names pattern else glob0 names pattern)"

subsection \<open>The environment: directory, clock, call logs\<close>

text \<open>
  A file of the cache directory, a regular file: its name, the time
  \<^verbatim>\<open>os.path.getctime\<close> reports for it (in microseconds since the epoch, the
  resolution of \<^verbatim>\<open>datetime\<close>) and its content.
\<close>

record dirent =
  name :: string
  ctime :: int
  content :: string

text \<open>
  \<open>files\<close> is the directory in the order the file system lists it, every name once;
  \<open>now\<close> is the clock in microseconds since the epoch and \<open>utcoffset\<close> the offset of
  local time in seconds (the clock stands still during one operation); \<open>writable\<close> is false where every write into the directory fails
  (no permission, read-only or full volume); \<open>ts_calls\<close> counts the calls of the
  timestamp formatter and \<open>f_calls\<close> logs the arguments of every call of the wrapped
  function. The directory is flat: it has no subdirectories, so a name with a
  \<^verbatim>\<open>/\<close> cannot be written.
\<close>

record 'a world =
  files :: "dirent list"
  now :: int
  utcoffset :: int
  writable :: bool
  ts_calls :: nat
  f_calls :: "'a list"

definition listdir :: "'a world \<Rightarrow> string list" where
  "listdir w = map name (files w)"

definition lookup_file :: "'a world \<Rightarrow> string \<Rightarrow> dirent option" where
  "lookup_file w path = find (\<lambda>f. name f = path) (files w)"

text \<open>\<^verbatim>\<open>os.path.getctime(path)\<close>; it raises for a path that does not exist.\<close>

definition getctime :: "'a world \<Rightarrow> string \<Rightarrow> error + int" where
  "getctime w path =
     (case lookup_file w path of None \<Rightarrow> Inl FileNotFoundError | Some f \<Rightarrow> Inr (ctime f))"

text \<open>
  Opening a path for writing and writing the data: an existing file keeps its place
  in the directory and gets the new content and the time of the write (on POSIX
  \<^verbatim>\<open>getctime\<close> is the time of the last change), a new name is added at the end. A
  name that is empty, a dot name or has a \<^verbatim>\<open>/\<close> is no file of this directory; names
  that lead out of the directory are outside the model.
\<close>

fun put_file :: "dirent list \<Rightarrow> dirent \<Rightarrow> dirent list" where
  "put_file [] f = [f]"
| "put_file (g # gs) f = (if name g = name f then f # gs else g # put_file gs f)"

definition valid_name :: "string \<Rightarrow> bool" where
  "valid_name n = (n \<noteq> [] \<and> n \<noteq> ''.'' \<and> n \<noteq> ''..'' \<and> CHR ''/'' \<notin> set n)"

definition write_file :: "'a world \<Rightarrow> string \<Rightarrow> string \<Rightarrow> error + 'a world" where
  "write_file w path data =
     (if writable w \<and> valid_name path then
        Inr (w\<lparr>files := put_file (files w) \<lparr>name = path, ctime = now w, content = data\<rparr>\<rparr>)
      else Inl OSError)"

subsection \<open>Dates and times\<close>

text \<open>
  A naive \<^verbatim>\<open>datetime\<close> is its number of microseconds since 1970-01-01 00:00:00 on
  its own calendar. \<^verbatim>\<open>datetime.now()\<close> reads the local wall clock;
  \<^verbatim>\<open>datetime.utcfromtimestamp(t)\<close> is the UTC reading of the time stamp \<open>t\<close>.
\<close>

definition dt_now :: "'a world \<Rightarrow> int" where
  "dt_now w = now w + utcoffset w * 1000000"

definition utcfromtimestamp :: "int \<Rightarrow> int" where
  "utcfromtimestamp t = t"

text \<open>
  The difference of two datetimes is a \<^verbatim>\<open>timedelta\<close>, kept as days, seconds
  (from 0 to 86399) and microseconds (from 0 to 999999). Its attribute
  \<^verbatim>\<open>seconds\<close> is the middle component, not the length of the interval.
\<close>

definition timedelta_seconds :: "int \<Rightarrow> int" where
  "timedelta_seconds us = (us div 1000000) mod 86400"

text \<open>
  \<^verbatim>\<open>strftime(d, "%Y-%m-%d-%H:%M:%S")\<close>, for the years 1000 to 9999. The date of a
  day number is computed in 400-year eras of 146097 days, counted from 1 March.
\<close>

definition digit :: "int \<Rightarrow> char" where
  "digit n = char_of (48 + n)"





subsection \<open>The collaborators: pandas and the wrapped function\<close>

text \<open>
  Keyword arguments are a dictionary from names to values. \<^verbatim>\<open>DataFrame.to_csv\<close> and
  \<^verbatim>\<open>pandas.read_csv\<close> belong to pandas and are parameters of the model: \<open>to_csv\<close>
  gives the text it writes for a table of type \<open>'t\<close> (or raises before anything is
  written), \<open>read_csv\<close> parses the text of a file. The wrapped function is a
  function from its arguments to a table or an exception; it does not touch the
  cache directory.
\<close>

datatype pyval = PyBool bool | PyInt int | PyStr string

type_synonym kwargs = "(string \<times> pyval) list"

record 't pandas =
  to_csv :: "kwargs \<Rightarrow> 't \<Rightarrow> error + string"
  read_csv :: "kwargs \<Rightarrow> string \<Rightarrow> error + 't"

subsection \<open>\<^verbatim>\<open>class DFHist\<close>\<close>

text \<open>
  The attributes of a \<^verbatim>\<open>DFHist\<close>. The timestamp formatter is a callable without
  arguments; what it returns may depend on the local wall clock and on how often
  it was called before, which are the two arguments of \<open>tsformatter\<close>.
\<close>

record dfhist =
  directory :: string
  expiry :: "int option"
  format :: string
  tsformatter :: "int \<Rightarrow> nat \<Rightarrow> string"
  "method" :: string
  marshal_params :: kwargs
  unmarshal_params :: kwargs


text \<open>
  \<^verbatim>\<open>DFHist.marshal\<close> (lines 99 to 108): the formatter is called, its string put
  into the name pattern, and only then the method is looked at; the table is
  written under that name and the path returned.
\<close>

definition marshal ::
  "'t pandas \<Rightarrow> dfhist \<Rightarrow> 'a world \<Rightarrow> 't \<Rightarrow> (error + string) \<times> 'a world" where
  "marshal pd self w df =
     (let ts = tsformatter self (dt_now w) (ts_calls w);
          w1 = w\<lparr>ts_calls := Suc (ts_calls w)\<rparr>
      in case py_format (format self) ts of
           Inl e \<Rightarrow> (Inl e, w1)
         | Inr path \<Rightarrow>
             if method self = ''csv'' then
               (case to_csv pd (marshal_params self) df of
                  Inl e \<Rightarrow> (Inl e, w1)
                | Inr data \<Rightarrow>
                    (case write_file w1 path data of
                       Inl e \<Rightarrow> (Inl e, w1)
                     | Inr w2 \<Rightarrow> (Inr path, w2)))
             else (Inl NotImplementedError, w1))"

text \<open>\<^verbatim>\<open>DFHist.unmarshal\<close> (lines 110 to 114): the file at the path is read and parsed.\<close>

definition unmarshal :: "'t pandas \<Rightarrow> dfhist \<Rightarrow> 'a world \<Rightarrow> string \<Rightarrow> error + 't" where
  "unmarshal pd self w path =
     (if method self = ''csv'' then
        (case lookup_file w path of
           None \<Rightarrow> Inl FileNotFoundError
         | Some f \<Rightarrow> read_csv pd (unmarshal_params self) (content f))
      else Inl NotImplementedError)"

text \<open>
  \<^verbatim>\<open>sorted(xs, key=key)\<close>: the key of every element is computed first, in order
  (the first exception ends the call), then the elements are sorted by key, equal
  keys staying in their order.
\<close>

fun keys_of :: "('p \<Rightarrow> error + 'k) \<Rightarrow> 'p list \<Rightarrow> error + 'k list" where
  "keys_of key [] = Inr []"
| "keys_of key (x # xs) =
     (case key x of
        Inl e \<Rightarrow> Inl e
      | Inr k \<Rightarrow> (case keys_of key xs of Inl e \<Rightarrow> Inl e | Inr ks \<Rightarrow> Inr (k # ks)))"

definition sorted_by :: "('p \<Rightarrow> error + 'k::linorder) \<Rightarrow> 'p list \<Rightarrow> error + 'p list" where
  "sorted_by key xs =
     (case keys_of key xs of
        Inl e \<Rightarrow> Inl e
      | Inr ks \<Rightarrow> Inr (map snd (sort_key fst (zip ks xs))))"

text \<open>\<^verbatim>\<open>DFHist.paths_to_versions\<close> (lines 116 to 120).\<close>

definition paths_to_versions :: "dfhist \<Rightarrow> 'a world \<Rightarrow> error + string list" where
  "paths_to_versions self w =
     (case py_format (format self) ''*'' of
        Inl e \<Rightarrow> Inl e
      | Inr pattern \<Rightarrow> sorted_by (getctime w) (glob (listdir w) pattern))"

subsection \<open>\<^verbatim>\<open>class VersionedFunc\<close>\<close>

text \<open>
  \<^verbatim>\<open>VersionedFunc.retrieve\<close> (lines 156 to 160); \<^verbatim>\<open>versions[-1]\<close> raises IndexError on
  the empty list.
\<close>

definition retrieve :: "'t pandas \<Rightarrow> dfhist \<Rightarrow> 'a world \<Rightarrow> (error + 't) \<times> 'a world" where
  "retrieve pd self w =
     (case paths_to_versions self w of
        Inl e \<Rightarrow> (Inl e, w)
      | Inr versions \<Rightarrow>
          (case versions of
             [] \<Rightarrow> (Inl IndexError, w)
           | _ # _ \<Rightarrow> (unmarshal pd self w (last versions), w)))"

text \<open>
  \<^verbatim>\<open>VersionedFunc.force\<close> (lines 162 to 166). The call of the wrapped function is
  logged whether it returns or raises.
\<close>

definition force ::
  "'t pandas \<Rightarrow> dfhist \<Rightarrow> ('a \<Rightarrow> error + 't) \<Rightarrow> 'a world \<Rightarrow> 'a \<Rightarrow> (error + 't) \<times> 'a world" where
  "force pd self f w args =
     (let w1 = w\<lparr>f_calls := f_calls w @ [args]\<rparr>
      in case f args of
           Inl e \<Rightarrow> (Inl e, w1)
         | Inr df \<Rightarrow>
             (case marshal pd self w1 df of
                (Inl e, w2) \<Rightarrow> (Inl e, w2)
              | (Inr path, w2) \<Rightarrow> (Inr df, w2)))"

text \<open>
  The value of \<^verbatim>\<open>refresh\<close> after lines 138 to 147 of \<^verbatim>\<open>VersionedFunc.__call__\<close>.
\<close>

definition refresh_flag :: "dfhist \<Rightarrow> 'a world \<Rightarrow> string list \<Rightarrow> error + bool" where
  "refresh_flag self w versions =
     (case versions of
        [] \<Rightarrow> Inr True
      | _ # _ \<Rightarrow>
          (case getctime w (last versions) of
             Inl e \<Rightarrow> Inl e
           | Inr c \<Rightarrow>
               (let elapsed = dt_now w - utcfromtimestamp c
                in case expiry self of
                     None \<Rightarrow> Inr False
                   | Some e \<Rightarrow> if timedelta_seconds elapsed < e then Inr False else Inr True)))"

text \<open>
  \<^verbatim>\<open>VersionedFunc.__call__\<close> (lines 137 to 154); its recomputing branch (lines 150 to
  152) is the body of \<^verbatim>\<open>force\<close>.
\<close>

definition VersionedFunc_call ::
  "'t pandas \<Rightarrow> dfhist \<Rightarrow> ('a \<Rightarrow> error + 't) \<Rightarrow> 'a world \<Rightarrow> 'a \<Rightarrow> (error + 't) \<times> 'a world" where
  "VersionedFunc_call pd self f w args =
     (case paths_to_versions self w of
        Inl e \<Rightarrow> (Inl e, w)
      | Inr versions \<Rightarrow>
          (case refresh_flag self w versions of
             Inl e \<Rightarrow> (Inl e, w)
           | Inr refresh \<Rightarrow>
               if refresh then
                 (let w1 = w\<lparr>f_calls := f_calls w @ [args]\<rparr>
                  in case f args of
                       Inl e \<Rightarrow> (Inl e, w1)
                     | Inr df \<Rightarrow>
                         (case marshal pd self w1 df of
                            (Inl e, w2) \<Rightarrow> (Inl e, w2)
                          | (Inr path, w2) \<Rightarrow> (Inr df, w2)))
               else retrieve pd self w))"

subsection \<open>Concrete inputs\<close>

text \<open>
  The configuration of the repository's tests: names \<^verbatim>\<open>1.csv\<close>, \<^verbatim>\<open>2.csv\<close>, ... from a
  formatter that counts its calls (\<^verbatim>\<open>counter\<close> of \<^verbatim>\<open>tests.py\<close>), and a serializer whose
  tables are their own text.
\<close>

function str_of_nat :: "nat \<Rightarrow> string" where
  "str_of_nat n =
     (if n < 10 then [digit (int n)]
      else str_of_nat (n div 10) @ [digit (int (n mod 10))])"
  by pat_completeness auto
termination
  by (relation "measure id") auto

declare str_of_nat.simps [simp del]

lemma digit_values:
  "digit 0 = CHR ''0''" "digit 1 = CHR ''1''" "digit 2 = CHR ''2''" "digit 3 = CHR ''3''"
  "digit 4 = CHR ''4''" "digit 5 = CHR ''5''" "digit 6 = CHR ''6''" "digit 7 = CHR ''7''"
  "digit 8 = CHR ''8''" "digit 9 = CHR ''9''"
  by code_simp+

lemma str_of_nat_digit: "n < 10 \<Longrightarrow> str_of_nat n = [digit (int n)]"
  by (simp add: str_of_nat.simps)

definition counter :: "int \<Rightarrow> nat \<Rightarrow> string" where
  "counter local calls = str_of_nat (Suc calls)"

definition plain_pandas :: "string pandas" where
  "plain_pandas = \<lparr>to_csv = (\<lambda>kw t. Inr t), read_csv = (\<lambda>kw s. Inr s)\<rparr>"

definition test_dfhist :: "int option \<Rightarrow> dfhist" where
  "test_dfhist e =
     \<lparr>directory = ''/tmp/cache'', expiry = e, format = ''{timestamp}.csv'',
      tsformatter = counter, method = ''csv'',
      marshal_params = [(''index'', PyBool False)], unmarshal_params = []\<rparr>"

definition empty_dir :: "unit world" where
  "empty_dir = \<lparr>files = [], now = 1700000000000000, utcoffset = 0, writable = True,
                 ts_calls = 0, f_calls = []\<rparr>"

definition one_artifact :: "unit world" where
  "one_artifact =
     \<lparr>files = [\<lparr>name = ''1.csv'', ctime = 1700000000000000, content = ''T1''\<rparr>],
      now = 1700000003000000, utcoffset = 0, writable = True, ts_calls = 1, f_calls = []\<rparr>"

definition f_table :: "unit \<Rightarrow> error + string" where
  "f_table u = Inr ''T2''"

definition f_raises :: "unit \<Rightarrow> error + string" where
  "f_raises u = Inl (Raised ''query failed'')"






text \<open>A directory whose artifact is one day and five seconds old.\<close>

definition day_old :: "unit world" where
  "day_old =
     \<lparr>files = [\<lparr>name = ''1.csv'', ctime = 1700000000000000, content = ''T1''\<rparr>],
      now = 1700086405000000, utcoffset = 0, writable = True, ts_calls = 1, f_calls = []\<rparr>"


text \<open>A name pattern with a bracket, and the directory after a second save.\<close>

definition bracket_dfhist :: dfhist where
  "bracket_dfhist =
     \<lparr>directory = ''/tmp/cache'', expiry = None, format = ''report[v2]_{timestamp}.csv'',
      tsformatter = counter, method = ''csv'',
      marshal_params = [(''index'', PyBool False)], unmarshal_params = []\<rparr>"

definition two_artifacts :: "unit world" where
  "two_artifacts =
     \<lparr>files = [\<lparr>name = ''1.csv'', ctime = 1700000000000000, content = ''T1''\<rparr>,
               \<lparr>name = ''2.csv'', ctime = 1700000003000000, content = ''T2''\<rparr>],
      now = 1700000003000000, utcoffset = 0, writable = True, ts_calls = 2, f_calls = [()]\<rparr>"

lemmas eval_defs =
  py_format.simps fnmatchcase.simps paths_to_versions_def glob_def glob1_def glob0_def
  has_magic_def ishidden_def listdir_def
  sorted_by_def getctime_def lookup_file_def refresh_flag_def dt_now_def
  utcfromtimestamp_def timedelta_seconds_def

lemmas op_defs =
  force_def VersionedFunc_call_def retrieve_def marshal_def unmarshal_def write_file_def
  valid_name_def

lemmas run_defs =
  op_defs py_format.simps counter_def str_of_nat_digit digit_values dt_now_def Let_def

lemma ptv_one: "paths_to_versions (test_dfhist e) one_artifact = Inr [''1.csv'']"
  by (simp add: eval_defs test_dfhist_def one_artifact_def)






lemma rf_one: "refresh_flag (test_dfhist (Some 0)) one_artifact [''1.csv''] = Inr True"
  by (simp add: eval_defs test_dfhist_def one_artifact_def)

section \<open>The wrapped function raises\<close>

text \<open>
  C7. When the wrapped function raises in \<^verbatim>\<open>force\<close> or in a call that recomputes, its
  exception reaches the caller unchanged and nothing is saved: the directory holds
  the files it held before. A call never changes the files when the wrapped
  function raises, whichever branch it takes.
\<close>

theorem wrapped_error_propagates:
  assumes "f args = Inl e"
  shows "force pd self f w args = (Inl e, w\<lparr>f_calls := f_calls w @ [args]\<rparr>) \<and>
         files (snd (force pd self f w args)) = files w \<and>
         files (snd (VersionedFunc_call pd self f w args)) = files w \<and>
         (paths_to_versions self w = Inr versions \<and> refresh_flag self w versions = Inr True \<longrightarrow>
            VersionedFunc_call pd self f w args = (Inl e, w\<lparr>f_calls := f_calls w @ [args]\<rparr>))"
  using assms
  by (auto simp: force_def VersionedFunc_call_def retrieve_def Let_def
           split: sum.splits list.splits)

theorem wrapped_error_propagates_witness:
  "f_raises () = Inl (Raised ''query failed'') \<and>
   paths_to_versions (test_dfhist (Some 0)) one_artifact = Inr [''1.csv''] \<and>
   refresh_flag (test_dfhist (Some 0)) one_artifact [''1.csv''] = Inr True \<and>
   force plain_pandas (test_dfhist (Some 0)) f_raises one_artifact () =
     (Inl (Raised ''query failed''), one_artifact\<lparr>f_calls := [()]\<rparr>) \<and>
   VersionedFunc_call plain_pandas (test_dfhist (Some 0)) f_raises one_artifact () =
     (Inl (Raised ''query failed''), one_artifact\<lparr>f_calls := [()]\<rparr>) \<and>
   files (snd (VersionedFunc_call plain_pandas (test_dfhist (Some 0)) f_raises one_artifact ())) =
     [\<lparr>name = ''1.csv'', ctime = 1700000000000000, content = ''T1''\<rparr>]"
proof -
  have h: "f_raises () = Inl (Raised ''query failed'')"
    by (simp add: f_raises_def)
  have c: "f_calls one_artifact = []"
    and d: "files one_artifact = [\<lparr>name = ''1.csv'', ctime = 1700000000000000, content = ''T1''\<rparr>]"
    by (simp_all add: one_artifact_def)
  show ?thesis
    using wrapped_error_propagates [of f_raises "()" "Raised ''query failed''" plain_pandas
        "test_dfhist (Some 0)" one_artifact "[''1.csv'']"]
    by (simp add: h ptv_one rf_one c d)
qed

section \<open>What a recomputation returns\<close>



section \<open>The save fails\<close>




section \<open>Retrieval\<close>



section \<open>Unsupported serialization methods\<close>






section \<open>Forced refresh\<close>




lemma find_put_file: "find (\<lambda>g. name g = name f) (put_file fs f) = Some f"
  by (induction fs) auto

lemma marshal_success:
  assumes "marshal pd self w df = (Inr path, w2)"
  shows "\<exists>data. to_csv pd (marshal_params self) df = Inr data \<and>
           w2 = w\<lparr>ts_calls := Suc (ts_calls w),
                  files := put_file (files w) \<lparr>name = path, ctime = now w, content = data\<rparr>\<rparr>"
  using assms
  by (auto simp: marshal_def write_file_def Let_def split: sum.splits if_splits)




lemma marshal_two:
  "marshal plain_pandas (test_dfhist None) (one_artifact\<lparr>f_calls := [()]\<rparr>) ''T2'' =
     (Inr ''2.csv'',
      \<lparr>files = [\<lparr>name = ''1.csv'', ctime = 1700000000000000, content = ''T1''\<rparr>,
                \<lparr>name = ''2.csv'', ctime = 1700000003000000, content = ''T2''\<rparr>],
       now = 1700000003000000, utcoffset = 0, writable = True, ts_calls = 2, f_calls = [()]\<rparr>)"
  by (simp add: run_defs plain_pandas_def test_dfhist_def one_artifact_def)






section \<open>Saving, then loading\<close>

text \<open>
  What \<^verbatim>\<open>unmarshal\<close> loads from the path that \<^verbatim>\<open>marshal\<close> returned is what
  \<open>read_csv\<close> makes of the text that \<open>to_csv\<close> wrote: the store adds nothing and
  loses nothing of its own. Whether that is the table that was saved rests with
  pandas.
\<close>

lemma unmarshal_after_marshal:
  assumes "marshal pd self w df = (Inr path, w2)"
  shows "\<exists>data. to_csv pd (marshal_params self) df = Inr data \<and>
           unmarshal pd self w2 path = read_csv pd (unmarshal_params self) data"
proof -
  from marshal_success [OF assms] obtain data where
    d: "to_csv pd (marshal_params self) df = Inr data"
    and w2: "w2 = w\<lparr>ts_calls := Suc (ts_calls w),
               files := put_file (files w) \<lparr>name = path, ctime = now w, content = data\<rparr>\<rparr>"
    by auto
  have m: "method self = ''csv''"
    using assms by (auto simp: marshal_def Let_def split: sum.splits if_splits)
  have "lookup_file w2 path = Some \<lparr>name = path, ctime = now w, content = data\<rparr>"
    using find_put_file [of "\<lparr>name = path, ctime = now w, content = data\<rparr>" "files w"]
    by (simp add: lookup_file_def w2)
  then show ?thesis
    using d m by (simp add: unmarshal_def)
qed

section \<open>Freshness\<close>

text \<open>
  What lines 141 to 147 of \<^verbatim>\<open>__call__\<close> decide when there is an artifact: the call
  recomputes when an expiry is set and the \<^verbatim>\<open>seconds\<close> component of the difference
  between the local wall clock and the UTC reading of the artifact's time is not
  below it.
\<close>

lemma ptv_day_old: "paths_to_versions (test_dfhist e) day_old = Inr [''1.csv'']"
  by (simp add: eval_defs test_dfhist_def day_old_def)

lemma refresh_flag_rule:
  assumes "versions \<noteq> []" and "getctime w (last versions) = Inr c"
  shows "refresh_flag self w versions =
           Inr (case expiry self of
                  None \<Rightarrow> False
                | Some e \<Rightarrow> e \<le> ((now w + utcoffset w * 1000000 - c) div 1000000) mod 86400)"
  using assms
  by (cases versions)
     (auto simp: refresh_flag_def dt_now_def utcfromtimestamp_def timedelta_seconds_def Let_def
           split: option.splits)

text \<open>
  For an artifact less than a day old, on a clock whose local time is UTC, this is
  the comparison of the age in whole seconds with the expiry.
\<close>

lemma fresh_within_a_day:
  assumes "versions \<noteq> []" and "getctime w (last versions) = Inr t0"
    and "utcoffset w = 0" and "t0 \<le> now w" and "now w - t0 < 86400000000"
  shows "refresh_flag self w versions =
           Inr (case expiry self of
                  None \<Rightarrow> False
                | Some e \<Rightarrow> e \<le> (now w - t0) div 1000000)"
proof -
  have "0 \<le> (now w - t0) div 1000000" and "(now w - t0) div 1000000 < 86400"
    using assms(4,5) by simp_all
  then have "((now w - t0) div 1000000) mod 86400 = (now w - t0) div 1000000"
    by simp
  then show ?thesis
    using refresh_flag_rule [OF assms(1,2), of self] assms(3)
    by (simp split: option.splits)
qed

text \<open>
  C1 at an artifact that is one day and five seconds old, with an expiry of ten
  seconds and local time equal to UTC: the \<^verbatim>\<open>seconds\<close> component of the age is 5, so
  the call takes the artifact for fresh, does not call the wrapped function and
  returns the cached table, where the claim has it recompute.
\<close>

theorem day_old_artifact_served:
  "expiry (test_dfhist (Some 10)) = Some 10 \<and>
   paths_to_versions (test_dfhist (Some 10)) day_old = Inr [''1.csv''] \<and>
   getctime day_old ''1.csv'' = Inr 1700000000000000 \<and>
   now day_old - 1700000000000000 = 86405 * 1000000 \<and>
   refresh_flag (test_dfhist (Some 10)) day_old [''1.csv''] = Inr False \<and>
   VersionedFunc_call plain_pandas (test_dfhist (Some 10)) f_table day_old () =
     (Inr ''T1'', day_old)"
proof -
  have r: "refresh_flag (test_dfhist (Some 10)) day_old [''1.csv''] = Inr False"
    by (simp add: eval_defs test_dfhist_def day_old_def)
  have u: "unmarshal plain_pandas (test_dfhist (Some 10)) day_old ''1.csv'' = Inr ''T1''"
    by (simp add: unmarshal_def lookup_file_def plain_pandas_def test_dfhist_def day_old_def)
  have v: "VersionedFunc_call plain_pandas (test_dfhist (Some 10)) f_table day_old () =
     (Inr ''T1'', day_old)"
    by (simp add: VersionedFunc_call_def retrieve_def ptv_day_old r u)
  show ?thesis
    using r v by (simp add: ptv_day_old) (simp add: test_dfhist_def day_old_def getctime_def lookup_file_def)
qed

section \<open>Listing the artifacts\<close>

lemma glob_subset: "set (glob names pattern) \<subseteq> set names"
  by (auto simp: glob_def glob1_def glob0_def)

lemma getctime_listed: "p \<in> set (listdir w) \<Longrightarrow> \<exists>c. getctime w p = Inr c"
  by (auto simp: getctime_def lookup_file_def listdir_def find_None_iff split: option.splits)

lemma keys_of_total:
  "(\<And>x. x \<in> set xs \<Longrightarrow> \<exists>k. key x = Inr k) \<Longrightarrow> keys_of key xs = Inr (map (projr \<circ> key) xs)"
proof (induction xs)
  case Nil
  then show ?case by simp
next
  case (Cons x xs)
  from Cons.prems [of x] obtain k where k: "key x = Inr k" by auto
  have "keys_of key xs = Inr (map (projr \<circ> key) xs)"
    using Cons.IH Cons.prems by simp
  then show ?case by (simp add: k)
qed

lemma insort_key_pair:
  "insort_key fst (g x, x) (map (\<lambda>y. (g y, y)) ys) = map (\<lambda>y. (g y, y)) (insort_key g x ys)"
  by (induction ys) auto

lemma sort_key_pair:
  "sort_key fst (map (\<lambda>y. (g y, y)) xs) = map (\<lambda>y. (g y, y)) (sort_key g xs)"
  by (induction xs) (auto simp: insort_key_pair)

lemma zip_keys: "zip (map g xs) xs = map (\<lambda>y. (g y, y)) xs"
  by (induction xs) auto

lemma sorted_by_total:
  assumes "\<And>x. x \<in> set xs \<Longrightarrow> \<exists>k. key x = Inr k"
  shows "sorted_by key xs = Inr (sort_key (projr \<circ> key) xs)"
  using keys_of_total [of xs key, OF assms]
  by (simp add: sorted_by_def zip_keys sort_key_pair comp_def)

lemma paths_to_versions_eq:
  assumes "py_format (format self) ''*'' = Inr pattern"
  shows "paths_to_versions self w =
           Inr (sort_key (projr \<circ> getctime w) (glob (listdir w) pattern))"
proof -
  have "\<exists>k. getctime w x = Inr k" if "x \<in> set (glob (listdir w) pattern)" for x
    using that glob_subset [of "listdir w" pattern] getctime_listed [of x w] by blast
  then show ?thesis
    using assms by (simp add: paths_to_versions_def sorted_by_total)
qed



section \<open>Saved names and the discovery pattern\<close>

lemma field_end_set: "field_end cs = Some (fld, rest) \<Longrightarrow> set rest \<subseteq> set cs"
  by (induction cs arbitrary: fld rest) (auto split: if_splits option.splits)

lemma fnmatch_cons:
  "c \<noteq> CHR ''['' \<Longrightarrow> fnmatchcase s p \<Longrightarrow> fnmatchcase (c # s) (c # p)"
proof -
  assume c: "c \<noteq> CHR ''[''" and m: "fnmatchcase s p"
  have "1 \<in> set [0..<Suc (length (c # s))]"
    by (simp del: upt_Suc)
  moreover have "fnmatchcase (drop 1 (c # s)) p"
    using m by simp
  ultimately have "list_ex (\<lambda>k. fnmatchcase (drop k (c # s)) p) [0..<Suc (length (c # s))]"
    unfolding list_ex_iff by blast
  then show ?thesis
    using c m by (auto simp add: fnmatchcase.simps simp del: upt_Suc)
qed

lemma fnmatch_star: "fnmatchcase s p \<Longrightarrow> fnmatchcase (t @ s) (CHR ''*'' # p)"
proof -
  assume m: "fnmatchcase s p"
  have "length t \<in> set [0..<Suc (length (t @ s))]"
    by (simp del: upt_Suc)
  moreover have "fnmatchcase (drop (length t) (t @ s)) p"
    using m by simp
  ultimately have "list_ex (\<lambda>k. fnmatchcase (drop k (t @ s)) p) [0..<Suc (length (t @ s))]"
    unfolding list_ex_iff by blast
  then show ?thesis
    by (simp add: fnmatchcase.simps del: upt_Suc)
qed

lemma py_format_matches:
  "CHR ''['' \<notin> set fmt \<Longrightarrow> py_format fmt ts = Inr n \<Longrightarrow> py_format fmt ''*'' = Inr p \<Longrightarrow>
   fnmatchcase n p"
proof (induction fmt ts arbitrary: n p rule: py_format.induct)
  case (1 ts)
  then show ?case by (simp add: py_format.simps fnmatchcase.simps)
next
  case (2 c cs ts)
  note n = "2.prems"(2) [unfolded py_format.simps(2) [of c cs ts]]
  note p = "2.prems"(3) [unfolded py_format.simps(2) [of c cs "''*''"]]
  have nb: "CHR ''['' \<notin> set cs" and cb: "c \<noteq> CHR ''[''"
    using "2.prems"(1) by auto
  show ?case
  proof (cases "c = CHR ''{''")
    case open_brace: True
    then obtain d ds where cs: "cs = d # ds"
      using n by (cases cs) auto
    show ?thesis
    proof (cases "d = CHR ''{''")
      case True
      from n p open_brace cs True obtain n' p' where
        "py_format ds ts = Inr n'" "n = CHR ''{'' # n'"
        "py_format ds ''*'' = Inr p'" "p = CHR ''{'' # p'"
        by (auto split: sum.splits)
      moreover have "CHR ''['' \<notin> set ds"
        using nb cs by simp
      ultimately show ?thesis
        using "2.IH"(1) [OF open_brace cs True] by (simp add: fnmatch_cons)
    next
      case False
      from n p open_brace cs False obtain rest n' p' where
        fe: "field_end cs = Some (''timestamp'', rest)"
        and "py_format rest ts = Inr n'" "n = ts @ n'"
        "py_format rest ''*'' = Inr p'" "p = CHR ''*'' # p'"
        by (auto split: sum.splits option.splits if_splits)
      moreover have "CHR ''['' \<notin> set rest"
        using nb field_end_set [OF fe] by auto
      ultimately show ?thesis
        using "2.IH"(2) [OF open_brace cs False fe refl refl]
        by (simp add: cs fnmatch_star)
    qed
  next
    case no_open: False
    show ?thesis
    proof (cases "c = CHR ''}''")
      case True
      from n p no_open True obtain d ds n' p' where
        cs: "cs = d # ds" and d: "d = CHR ''}''"
        and "py_format ds ts = Inr n'" "n = CHR ''}'' # n'"
        "py_format ds ''*'' = Inr p'" "p = CHR ''}'' # p'"
        by (cases cs) (auto split: sum.splits if_splits)
      moreover have "CHR ''['' \<notin> set ds"
        using nb cs by simp
      ultimately show ?thesis
        using "2.IH"(3) [OF no_open True cs d] by (simp add: fnmatch_cons)
    next
      case False
      from n p no_open False obtain n' p' where
        "py_format cs ts = Inr n'" "n = c # n'"
        "py_format cs ''*'' = Inr p'" "p = c # p'"
        by (auto split: sum.splits)
      then show ?thesis
        using "2.IH"(4) [OF no_open False] nb cb by (simp add: fnmatch_cons)
    qed
  qed
qed


lemma has_magic_Cons:
  "has_magic (c # r) = (c = CHR ''*'' \<or> c = CHR ''?'' \<or> c = CHR ''['' \<or> has_magic r)"
  by (simp add: has_magic_def)

lemma py_format_no_magic:
  "py_format fmt ''*'' = Inr p \<Longrightarrow> \<not> has_magic p \<Longrightarrow> py_format fmt ts = Inr p"
proof (induction fmt ts arbitrary: p rule: py_format.induct)
  case (1 ts)
  then show ?case by (simp add: py_format.simps)
next
  case (2 c cs ts)
  note p = "2.prems"(1) [unfolded py_format.simps(2) [of c cs "''*''"]]
  note m = "2.prems"(2)
  show ?case
  proof (cases "c = CHR ''{''")
    case open_brace: True
    then obtain d ds where cs: "cs = d # ds"
      using p by (cases cs) auto
    show ?thesis
    proof (cases "d = CHR ''{''")
      case True
      from p open_brace cs True obtain p' where
        "py_format ds ''*'' = Inr p'" "p = CHR ''{'' # p'"
        by (auto split: sum.splits)
      then show ?thesis
        using "2.IH"(1) [OF open_brace cs True, of p'] m open_brace cs True
        by (simp add: py_format.simps(2) has_magic_Cons)
    next
      case False
      from p open_brace cs False obtain p' where "p = CHR ''*'' # p'"
        by (auto split: sum.splits option.splits if_splits)
      then show ?thesis
        using m by (simp add: has_magic_Cons)
    qed
  next
    case no_open: False
    show ?thesis
    proof (cases "c = CHR ''}''")
      case True
      from p no_open True obtain d ds p' where
        cs: "cs = d # ds" and d: "d = CHR ''}''"
        and "py_format ds ''*'' = Inr p'" "p = CHR ''}'' # p'"
        by (cases cs) (auto split: sum.splits if_splits)
      then show ?thesis
        using "2.IH"(3) [OF no_open True cs d, of p'] m no_open True
        by (simp add: py_format.simps(2) has_magic_Cons)
    next
      case False
      from p no_open False obtain p' where
        "py_format cs ''*'' = Inr p'" "p = c # p'"
        by (auto split: sum.splits)
      then show ?thesis
        using "2.IH"(4) [OF no_open False, of p'] m no_open False
        by (simp add: py_format.simps(2) has_magic_Cons)
    qed
  qed
qed

text \<open>
  Where the round trip of names holds. Let the name pattern contain no \<^verbatim>\<open>[\<close>, and let
  the name that a formatter's string gives not start with a dot unless the
  discovery pattern does. Then the discovery pattern matches the name, and in
  every directory that holds a file of that name \<^verbatim>\<open>glob\<close> finds it and the listing
  contains it.
\<close>

lemma saved_name_matches_glob:
  assumes "CHR ''['' \<notin> set (format self)"
    and "py_format (format self) ts = Inr path"
    and "py_format (format self) ''*'' = Inr pattern"
    and "ishidden pattern \<or> \<not> ishidden path"
  shows "fnmatchcase path pattern \<and>
         (path \<in> set (listdir w) \<longrightarrow>
            path \<in> set (glob (listdir w) pattern) \<and>
            (\<exists>vs. paths_to_versions self w = Inr vs \<and> path \<in> set vs))"
proof -
  have 1: "fnmatchcase path pattern"
    using assms(1,2,3) by (rule py_format_matches)
  have 2: "path \<in> set (glob (listdir w) pattern)" if l: "path \<in> set (listdir w)"
  proof (cases "has_magic pattern")
    case True
    then show ?thesis
      using 1 l assms(4) by (auto simp: glob_def glob1_def)
  next
    case False
    with assms(3) have "py_format (format self) ts = Inr pattern"
      by (rule py_format_no_magic)
    then have "path = pattern"
      using assms(2) by simp
    then show ?thesis
      using False l by (simp add: glob_def glob0_def)
  qed
  have 3: "\<exists>vs. paths_to_versions self w = Inr vs \<and> path \<in> set vs"
    if l: "path \<in> set (listdir w)"
    using 2 [OF l] paths_to_versions_eq [OF assms(3), of w] by simp
  show ?thesis
    using 1 2 3 by blast
qed

lemma saved_name_matches_glob_example:
  "CHR ''['' \<notin> set (format (test_dfhist None)) \<and>
   py_format (format (test_dfhist None)) ''2'' = Inr ''2.csv'' \<and>
   py_format (format (test_dfhist None)) ''*'' = Inr ''*.csv'' \<and>
   \<not> ishidden ''2.csv'' \<and>
   marshal plain_pandas (test_dfhist None) (one_artifact\<lparr>f_calls := [()]\<rparr>) ''T2'' =
     (Inr ''2.csv'', two_artifacts) \<and>
   ''2.csv'' \<in> set (listdir two_artifacts) \<and>
   fnmatchcase ''2.csv'' ''*.csv'' \<and>
   ''2.csv'' \<in> set (glob (listdir two_artifacts) ''*.csv'') \<and>
   paths_to_versions (test_dfhist None) two_artifacts = Inr [''1.csv'', ''2.csv'']"
proof -
  have b: "CHR ''['' \<notin> set (format (test_dfhist None))"
    by (simp add: test_dfhist_def)
  have n: "py_format (format (test_dfhist None)) ''2'' = Inr ''2.csv''"
    by (simp add: test_dfhist_def py_format.simps)
  have p: "py_format (format (test_dfhist None)) ''*'' = Inr ''*.csv''"
    by (simp add: test_dfhist_def py_format.simps)
  have h: "ishidden ''*.csv'' \<or> \<not> ishidden ''2.csv''"
    by (simp add: ishidden_def)
  have l: "''2.csv'' \<in> set (listdir two_artifacts)"
    by (simp add: listdir_def two_artifacts_def)
  have m: "marshal plain_pandas (test_dfhist None) (one_artifact\<lparr>f_calls := [()]\<rparr>) ''T2'' =
     (Inr ''2.csv'', two_artifacts)"
    by (simp add: marshal_two two_artifacts_def)
  have v: "paths_to_versions (test_dfhist None) two_artifacts = Inr [''1.csv'', ''2.csv'']"
    by (simp add: eval_defs test_dfhist_def two_artifacts_def)
  from saved_name_matches_glob [OF b n p h, of two_artifacts] l
  have "fnmatchcase ''2.csv'' ''*.csv''"
    and "''2.csv'' \<in> set (glob (listdir two_artifacts) ''*.csv'')"
    by blast+
  then show ?thesis
    using b n p l m v by (simp add: ishidden_def)
qed

lemma force_bracket:
  "force plain_pandas bracket_dfhist f_table empty_dir () =
     (Inr ''T2'',
      \<lparr>files = [\<lparr>name = ''report[v2]_1.csv'', ctime = 1700000000000000, content = ''T2''\<rparr>],
       now = 1700000000000000, utcoffset = 0, writable = True, ts_calls = 1, f_calls = [()]\<rparr>)"
  by (simp add: run_defs plain_pandas_def bracket_dfhist_def empty_dir_def f_table_def)

text \<open>
  C9 at the name pattern \<^verbatim>\<open>report[v2]_{timestamp}.csv\<close>. The claim has every saved
  name matched by the discovery pattern and found by the next listing. Here the
  discovery pattern reads \<^verbatim>\<open>[v2]\<close> as one character out of two, so it does not
  match the name that is saved: after a \<^verbatim>\<open>force\<close> into the empty directory the file
  is there and the listing is empty.
\<close>

theorem bracket_pattern_misses_saved_name:
  "py_format (format bracket_dfhist) ''1'' = Inr ''report[v2]_1.csv'' \<and>
   py_format (format bracket_dfhist) ''*'' = Inr ''report[v2]_*.csv'' \<and>
   \<not> fnmatchcase ''report[v2]_1.csv'' ''report[v2]_*.csv'' \<and>
   fst (force plain_pandas bracket_dfhist f_table empty_dir ()) = Inr ''T2'' \<and>
   listdir (snd (force plain_pandas bracket_dfhist f_table empty_dir ())) = [''report[v2]_1.csv''] \<and>
   paths_to_versions bracket_dfhist (snd (force plain_pandas bracket_dfhist f_table empty_dir ())) =
     Inr []"
proof -
  have 1: "py_format (format bracket_dfhist) ''1'' = Inr ''report[v2]_1.csv''"
    by (simp add: bracket_dfhist_def py_format.simps)
  have 2: "py_format (format bracket_dfhist) ''*'' = Inr ''report[v2]_*.csv''"
    by (simp add: bracket_dfhist_def py_format.simps)
  have 3: "\<not> fnmatchcase ''report[v2]_1.csv'' ''report[v2]_*.csv''"
    by (simp add: fnmatchcase.simps class_split_def class_matches_def)
  have 4: "paths_to_versions bracket_dfhist
      \<lparr>files = [\<lparr>name = ''report[v2]_1.csv'', ctime = 1700000000000000, content = ''T2''\<rparr>],
       now = 1700000000000000, utcoffset = 0, writable = True, ts_calls = 1, f_calls = [()]\<rparr> =
     Inr []"
    using 3 by (simp add: paths_to_versions_def 2 glob_def glob1_def has_magic_def ishidden_def
        listdir_def sorted_by_def)
  show ?thesis
    using 1 2 3 4 by (simp add: force_bracket listdir_def)
qed

end
